theory Spec2Isabelle
  imports Main
begin

section \<open>JavaScript values, failures and promises\<close>

text \<open>
  The thunk \<open>initComponent\<close> is embedded as a function from its
  arguments to the value it produces together with the list of effects it performed, in
  the order in which they happen.

  The errors the code creates itself are one constructor per \<open>throw\<close> site; the values
  interpolated into the message are the constructor's arguments.
  \<^item> \<open>MissingInitConfig\<close>: \<open>new Error('No init config found on Component ...')\<close>;
  \<^item> \<open>MissingInitState\<close>: \<open>new ReferenceError('Could not find init state. ...')\<close>;
  \<^item> \<open>InvalidCaller caller\<close>: \<open>new Error(`Unexpected value '${caller}' for caller ...`)\<close>;
  \<^item> \<open>PrepareValidationError m link\<close>: the class of PrepareValidationError.js, with the
    message and the "For more information see" link, when the constructor appends one;
  \<^item> \<open>InvalidActionReturn label ty cid\<close>: \<open>new Error(`Expected ${label} to return a
    Promise. Returned an ${ty} instead. Check the initAction for "${cid}"`)\<close>, on which the
    code sets \<open>isInvalidReturnError = true\<close>;
  \<^item> \<open>TypeError p\<close>: raised by the language itself when property \<open>p\<close> of \<open>undefined\<close> or
    \<open>null\<close> is read, or when a value that is not a function is called.
\<close>

datatype prepare_message =
    PreparationMissing string string
      \<comment> \<open>component id, \<open>JSON.stringify(initPropsObj)\<close>: "Expected component ... to be
          prepared but prepareComponent has not been called with props: ..."\<close>
  | PreparationPending string
      \<comment> \<open>component id: "Expected component ... to be prepared but preparation is still
          pending"\<close>

datatype init_error =
    MissingInitConfig
  | MissingInitState
  | InvalidCaller "string option"
  | PrepareValidationError prepare_message "(string \<times> (string \<times> string) list) option"
  | InvalidActionReturn string string string
  | TypeError string

text \<open>
  JavaScript values. Function values are not among them: the only values whose \<open>then\<close>
  is a function are the promises of \<open>action_return\<close> below. \<open>JS_object\<close> is an
  object with the listed own properties (an error object made by an action is one of
  these).
\<close>

datatype js_value =
    JS_undefined
  | JS_null
  | JS_boolean bool
  | JS_number int
  | JS_string string
  | JS_array "js_value list"
  | JS_object "(string \<times> js_value) list"
  | JS_error init_error

fun typeof :: "js_value \<Rightarrow> string" where
  "typeof JS_undefined = ''undefined''"
| "typeof JS_null = ''object''"
| "typeof (JS_boolean b) = ''boolean''"
| "typeof (JS_number n) = ''number''"
| "typeof (JS_string s) = ''string''"
| "typeof (JS_array vs) = ''object''"
| "typeof (JS_object ps) = ''object''"
| "typeof (JS_error e) = ''object''"

fun truthy :: "js_value \<Rightarrow> bool" where
  "truthy JS_undefined = False"
| "truthy JS_null = False"
| "truthy (JS_boolean b) = b"
| "truthy (JS_number n) = (n \<noteq> 0)"
| "truthy (JS_string s) = (s \<noteq> [])"
| "truthy (JS_array vs) = True"
| "truthy (JS_object ps) = True"
| "truthy (JS_error e) = True"

text \<open>
  \<open>get_property v p\<close> is the expression \<open>v.p\<close> for the two properties the code reads,
  \<open>then\<close> and \<open>isInvalidReturnError\<close>: a TypeError on \<open>undefined\<close> and \<open>null\<close>, the own
  property of an object, \<open>undefined\<close> where there is none. The only property the code
  sets on an error of its own is \<open>isInvalidReturnError\<close>.
\<close>

fun get_property :: "js_value \<Rightarrow> string \<Rightarrow> js_value + js_value" where
  "get_property JS_undefined p = Inl (JS_error (TypeError p))"
| "get_property JS_null p = Inl (JS_error (TypeError p))"
| "get_property (JS_object ps) p =
     Inr (case map_of ps p of None \<Rightarrow> JS_undefined | Some v \<Rightarrow> v)"
| "get_property (JS_error (InvalidActionReturn l t c)) p =
     Inr (if p = ''isInvalidReturnError'' then JS_boolean True else JS_undefined)"
| "get_property v p = Inr JS_undefined"

text \<open>
  A promise is settled (fulfilled with a value, rejected with a reason) or never settles.
\<close>

datatype settlement = Fulfilled js_value | Rejected js_value | Pending

text \<open>
  What calling a supplied action does: it throws, it returns a value that is not a
  promise, or it returns a promise.
\<close>

datatype action_return =
    Throws js_value
  | Returns js_value
  | Returns_promise settlement

datatype handler_return = Handler_returns | Handler_throws js_value

section \<open>Configuration and state\<close>

text \<open>
  Modelled from the spec: initMode.js and initSelfMode.js are not among the sources; the
  spec gives \<open>mode\<close> the values PREPARE and INIT_SELF and \<open>initSelf\<close> the values NEVER,
  ASYNC and BLOCKING.
\<close>

datatype init_mode = MODE_PREPARE | MODE_INIT_SELF

datatype init_self_mode = INIT_SELF_NEVER | INIT_SELF_ASYNC | INIT_SELF_BLOCKING

record init_state =
  mode :: init_mode
  prepared :: "string \<Rightarrow> bool option"

record 's init_options =
  onError :: "(js_value \<Rightarrow> handler_return) option"
  getInitState :: "'s \<Rightarrow> init_state option"
  initSelf :: init_self_mode
  allowLazy :: bool

record 's init_config =
  componentId :: string
  initProps :: "string list"
  initAction :: "(js_value \<Rightarrow> action_return) option"
  initActionClient :: "(js_value \<Rightarrow> action_return) option"
  initActionObjectParam :: bool
  options :: "'s init_options"

text \<open>
  The helper utils/propNameValuesToObject is not among the sources and \<open>JSON.stringify\<close>
  is the language's: both are parameters of the model.
\<close>

record utils =
  propNameValuesToObject :: "string list \<Rightarrow> js_value list \<Rightarrow> js_value"
  JSON_stringify :: "js_value \<Rightarrow> string"

section \<open>Effects\<close>

record payload =
  complete :: bool
  isPrepare :: bool
  prepareKey :: string

text \<open>
  \<open>Dispatch p\<close> is \<open>dispatch({ type: INIT_COMPONENT, payload: p })\<close>; the other events are
  the calls of the two supplied actions (with the props object they receive) and of the
  \<open>onError\<close> handler (with the failure it receives). What a supplied action does with
  the \<open>dispatch\<close> and \<open>getState\<close> it is given is its own business and is not recorded.
\<close>

datatype event =
    Dispatch payload
  | Call_initAction js_value
  | Call_initActionClient js_value
  | Call_onError js_value

text \<open>
  A promise of the chain: how it settles, and the events that happened on the way.
\<close>

type_synonym promise = "settlement \<times> event list"

definition Promise_resolve :: promise where
  "Promise_resolve = (Fulfilled JS_undefined, [])"

definition promise_then :: "promise \<Rightarrow> (js_value \<Rightarrow> promise) \<Rightarrow> promise" where
  "promise_then p f =
     (case p of
        (Fulfilled v, t) \<Rightarrow> (case f v of (s, t') \<Rightarrow> (s, t @ t'))
      | (Rejected e, t) \<Rightarrow> (Rejected e, t)
      | (Pending, t) \<Rightarrow> (Pending, t))"

definition promise_catch :: "promise \<Rightarrow> (js_value \<Rightarrow> promise) \<Rightarrow> promise" where
  "promise_catch p f =
     (case p of
        (Fulfilled v, t) \<Rightarrow> (Fulfilled v, t)
      | (Rejected e, t) \<Rightarrow> (case f e of (s, t') \<Rightarrow> (s, t @ t'))
      | (Pending, t) \<Rightarrow> (Pending, t))"

text \<open>
  The result of calling the thunk: it throws before it returns, or it returns a promise.
\<close>

datatype call_result = Threw js_value | Returned settlement

section \<open>PrepareValidationError.js\<close>

text \<open>
  The constructor appends the link only when both \<open>errorId\<close> and \<open>meta\<close> are given
  (\<open>errorId && meta\<close>: the empty string is falsy).
\<close>

definition new_PrepareValidationError ::
  "prepare_message \<Rightarrow> string option \<Rightarrow> (string \<times> string) list option \<Rightarrow> js_value" where
  "new_PrepareValidationError message errorId meta =
     JS_error (PrepareValidationError message
       (case (errorId, meta) of
          (Some i, Some m) \<Rightarrow> (if i \<noteq> [] then Some (i, m) else None)
        | _ \<Rightarrow> None))"

section \<open>initComponent: the decision\<close>

text \<open>
  The \<open>switch (caller)\<close> of initComponent: the three flags \<open>errorNotPrepared\<close>,
  \<open>shouldCallInitAction\<close>, \<open>shouldCallInitActionClient\<close>, or the error of the default
  branch. \<open>caller\<close> is \<open>None\<close> when the options argument gives none.
\<close>

definition decision ::
  "string option \<Rightarrow> bool \<Rightarrow> bool \<Rightarrow> init_mode \<Rightarrow> bool \<Rightarrow> init_self_mode \<Rightarrow> bool \<Rightarrow>
     js_value + bool \<times> bool \<times> bool" where
  "decision caller hasInitAction hasInitActionClient mode' isPrepared initSelf' allowLazy' =
     (if caller = Some ''prepareComponent'' then
        Inr (False, hasInitAction \<and> \<not> isPrepared, False)
      else if caller = Some ''willMount'' then
        Inr (hasInitAction \<and> mode' = MODE_PREPARE \<and> \<not> allowLazy',
             hasInitAction \<and>
               ((mode' = MODE_INIT_SELF \<and> initSelf' \<noteq> INIT_SELF_NEVER \<and> \<not> allowLazy') \<or>
                (mode' = MODE_PREPARE \<and> \<not> isPrepared \<and> allowLazy')),
             False)
      else if caller = Some ''didMount'' then
        Inr (False,
             hasInitAction \<and>
               ((mode' = MODE_INIT_SELF \<and> initSelf' \<noteq> INIT_SELF_NEVER \<and> allowLazy') \<or>
                (mode' = MODE_PREPARE \<and> \<not> isPrepared \<and> allowLazy')),
             hasInitActionClient \<and> initSelf' \<noteq> INIT_SELF_NEVER)
      else if caller = Some ''willReceiveProps'' then
        Inr (False, hasInitAction, hasInitActionClient)
      else Inl (JS_error (InvalidCaller caller)))"

text \<open>
  The decision table of the specification, written from its words: the four triggers and
  the row of each.
\<close>

datatype trigger = PREPARE_PASS | WILL_MOUNT | DID_MOUNT | WILL_RECEIVE_INPUTS

fun caller_name :: "trigger \<Rightarrow> string" where
  "caller_name PREPARE_PASS = ''prepareComponent''"
| "caller_name WILL_MOUNT = ''willMount''"
| "caller_name DID_MOUNT = ''didMount''"
| "caller_name WILL_RECEIVE_INPUTS = ''willReceiveProps''"

fun spec_decision_table ::
  "trigger \<Rightarrow> bool \<Rightarrow> bool \<Rightarrow> init_mode \<Rightarrow> bool \<Rightarrow> init_self_mode \<Rightarrow> bool \<Rightarrow>
     bool \<times> bool \<times> bool" where
  "spec_decision_table PREPARE_PASS hasPrimary hasRestricted m isPrepared s lazy =
     (False, hasPrimary \<and> \<not> isPrepared, False)"
| "spec_decision_table WILL_MOUNT hasPrimary hasRestricted m isPrepared s lazy =
     (hasPrimary \<and> m = MODE_PREPARE \<and> \<not> lazy,
      hasPrimary \<and> ((m = MODE_INIT_SELF \<and> s \<noteq> INIT_SELF_NEVER \<and> \<not> lazy) \<or>
                     (m = MODE_PREPARE \<and> \<not> isPrepared \<and> lazy)),
      False)"
| "spec_decision_table DID_MOUNT hasPrimary hasRestricted m isPrepared s lazy =
     (False,
      hasPrimary \<and> ((m = MODE_INIT_SELF \<and> s \<noteq> INIT_SELF_NEVER \<and> lazy) \<or>
                     (m = MODE_PREPARE \<and> \<not> isPrepared \<and> lazy)),
      hasRestricted \<and> s \<noteq> INIT_SELF_NEVER)"
| "spec_decision_table WILL_RECEIVE_INPUTS hasPrimary hasRestricted m isPrepared s lazy =
     (False, hasPrimary, hasRestricted)"

section \<open>initComponent: validation\<close>

text \<open>
  The part of initComponent before anything is dispatched: the checks of the init config
  and of the init state, the decision, and the \<open>errorNotPrepared\<close> check. It gives the
  thrown value, or the config with \<open>shouldCallInitAction\<close> and
  \<open>shouldCallInitActionClient\<close>. \<open>Component\<close> is \<open>Component.initConfig\<close> (\<open>None\<close> when
  there is none), \<open>state\<close> is what \<open>getState()\<close> returns.
\<close>

definition validation ::
  "utils \<Rightarrow> 's init_config option \<Rightarrow> js_value list \<Rightarrow> string \<Rightarrow> string option \<Rightarrow> 's \<Rightarrow>
     js_value + 's init_config \<times> bool \<times> bool" where
  "validation u Component initValues key caller state =
     (case Component of
        None \<Rightarrow> Inl (JS_error MissingInitConfig)
      | Some cfg \<Rightarrow>
          (case getInitState (options cfg) state of
             None \<Rightarrow> Inl (JS_error MissingInitState)
           | Some initState \<Rightarrow>
               (let isPrepared = (prepared initState key \<noteq> None) in
                case decision caller (initAction cfg \<noteq> None) (initActionClient cfg \<noteq> None)
                       (mode initState) isPrepared
                       (initSelf (options cfg)) (allowLazy (options cfg)) of
                  Inl e \<Rightarrow> Inl e
                | Inr (errorNotPrepared, shouldCallInitAction, shouldCallInitActionClient) \<Rightarrow>
                    if errorNotPrepared \<and> prepared initState key = None then
                      Inl (new_PrepareValidationError
                             (PreparationMissing (componentId cfg)
                                (JSON_stringify u
                                   (propNameValuesToObject u (initProps cfg) initValues)))
                             None None)
                    else if errorNotPrepared \<and> prepared initState key = Some False then
                      Inl (new_PrepareValidationError
                             (PreparationPending (componentId cfg)) None None)
                    else Inr (cfg, shouldCallInitAction, shouldCallInitActionClient))))"

section \<open>initComponent: execution\<close>

text \<open>
  Calling a supplied action records the call; calling what is not there is the
  language's TypeError.
\<close>

definition invoke ::
  "(js_value \<Rightarrow> action_return) option \<Rightarrow> (js_value \<Rightarrow> event) \<Rightarrow> string \<Rightarrow> js_value \<Rightarrow>
     action_return \<times> event list" where
  "invoke f ev name x =
     (case f of
        None \<Rightarrow> (Throws (JS_error (TypeError name)), [])
      | Some g \<Rightarrow> (g x, [ev x]))"

text \<open>
  The first \<open>then\<close> callback. For a returned value \<open>v\<close> that is not a promise, \<open>v.then\<close>
  is read first (a TypeError when \<open>v\<close> is \<open>undefined\<close> or \<open>null\<close>) and is never a
  function, so the flagged error is thrown.
\<close>

definition callInitAction :: "'s init_config \<Rightarrow> bool \<Rightarrow> js_value \<Rightarrow> promise" where
  "callInitAction cfg shouldCallInitAction initPropsObj =
     (case (if shouldCallInitAction
            then invoke (initAction cfg) Call_initAction ''initAction'' initPropsObj
            else (Returns_promise (Fulfilled JS_undefined), [])) of
        (Throws e, t) \<Rightarrow> (Rejected e, t)
      | (Returns v, t) \<Rightarrow>
          (case get_property v ''then'' of
             Inl e \<Rightarrow> (Rejected e, t)
           | Inr th \<Rightarrow>
               (Rejected (JS_error (InvalidActionReturn
                  (if initActionObjectParam cfg then ''initAction.server'' else ''initAction'')
                  (typeof v) (componentId cfg))), t))
      | (Returns_promise s, t) \<Rightarrow> (s, t))"

text \<open>The second \<open>then\<close> callback, which receives \<open>serverValue\<close>.\<close>

definition callInitActionClient ::
  "'s init_config \<Rightarrow> bool \<Rightarrow> bool \<Rightarrow> js_value \<Rightarrow> js_value \<Rightarrow> promise" where
  "callInitActionClient cfg shouldCallInitAction shouldCallInitActionClient initPropsObj
       serverValue =
     (case (if shouldCallInitActionClient
            then invoke (initActionClient cfg) Call_initActionClient ''initActionClient''
                   initPropsObj
            else (Returns_promise (Fulfilled JS_undefined), [])) of
        (Throws e, t) \<Rightarrow> (Rejected e, t)
      | (Returns v, t) \<Rightarrow>
          (case get_property v ''then'' of
             Inl e \<Rightarrow> (Rejected e, t)
           | Inr th \<Rightarrow>
               (Rejected (JS_error (InvalidActionReturn ''initAction.client''
                  (typeof v) (componentId cfg))), t))
      | (Returns_promise s, t) \<Rightarrow>
          promise_then (s, t) (\<lambda>clientValue.
            (Fulfilled
               (if shouldCallInitAction \<and> shouldCallInitActionClient
                then JS_array [serverValue, clientValue]
                else if shouldCallInitAction then serverValue else clientValue), [])))"

text \<open>The two action steps of the chain, up to the \<open>catch\<close>.\<close>

definition runActions :: "'s init_config \<Rightarrow> bool \<Rightarrow> bool \<Rightarrow> js_value \<Rightarrow> promise" where
  "runActions cfg shouldCallInitAction shouldCallInitActionClient initPropsObj =
     promise_then
       (promise_then Promise_resolve
          (\<lambda>_. callInitAction cfg shouldCallInitAction initPropsObj))
       (callInitActionClient cfg shouldCallInitAction shouldCallInitActionClient
          initPropsObj)"

text \<open>
  The \<open>catch\<close> callback. \<open>onError && !e.isInvalidReturnError\<close> reads the property only
  when there is a handler; the handler's return value is dropped.
\<close>

definition handleError :: "'s init_config \<Rightarrow> payload \<Rightarrow> js_value \<Rightarrow> promise" where
  "handleError cfg done e =
     (case onError (options cfg) of
        None \<Rightarrow> (Rejected e, [Dispatch done])
      | Some h \<Rightarrow>
          (case get_property e ''isInvalidReturnError'' of
             Inl te \<Rightarrow> (Rejected te, [])
           | Inr flag \<Rightarrow>
               if \<not> truthy flag then
                 (case h e of
                    Handler_returns \<Rightarrow> (Fulfilled JS_undefined, [Call_onError e])
                  | Handler_throws e' \<Rightarrow> (Rejected e', [Call_onError e]))
               else (Rejected e, [Dispatch done])))"

definition start_notification :: "string \<Rightarrow> string option \<Rightarrow> payload" where
  "start_notification key caller =
     \<lparr>complete = False, isPrepare = (caller = Some ''prepareComponent''), prepareKey = key\<rparr>"

definition end_notification :: "string \<Rightarrow> string option \<Rightarrow> payload" where
  "end_notification key caller =
     \<lparr>complete = True, isPrepare = (caller = Some ''prepareComponent''), prepareKey = key\<rparr>"

text \<open>The part of initComponent after the validation.\<close>

definition execution ::
  "utils \<Rightarrow> 's init_config \<Rightarrow> js_value list \<Rightarrow> string \<Rightarrow> string option \<Rightarrow> bool \<Rightarrow> bool \<Rightarrow>
     call_result \<times> event list" where
  "execution u cfg initValues key caller shouldCallInitAction shouldCallInitActionClient =
     (if \<not> shouldCallInitAction \<and> \<not> shouldCallInitActionClient then
        (Returned (fst Promise_resolve), [])
      else
        (let initPropsObj = propNameValuesToObject u (initProps cfg) initValues in
         case promise_then
                (promise_catch
                   (runActions cfg shouldCallInitAction shouldCallInitActionClient
                      initPropsObj)
                   (handleError cfg (end_notification key caller)))
                (\<lambda>result. (Fulfilled result, [Dispatch (end_notification key caller)])) of
           (s, t) \<Rightarrow> (Returned s, Dispatch (start_notification key caller) # t)))"

definition initComponent ::
  "utils \<Rightarrow> 's init_config option \<Rightarrow> js_value list \<Rightarrow> string \<Rightarrow> string option \<Rightarrow> 's \<Rightarrow>
     call_result \<times> event list" where
  "initComponent u Component initValues key caller state =
     (case validation u Component initValues key caller state of
        Inl e \<Rightarrow> (Threw e, [])
      | Inr (cfg, shouldCallInitAction, shouldCallInitActionClient) \<Rightarrow>
          execution u cfg initValues key caller
            shouldCallInitAction shouldCallInitActionClient)"

section \<open>Notions used by the properties\<close>

text \<open>How often the end notification of an invocation occurs among its effects.\<close>

definition end_count :: "string \<Rightarrow> string option \<Rightarrow> event list \<Rightarrow> nat" where
  "end_count key caller t = count_list t (Dispatch (end_notification key caller))"

fun is_dispatch :: "event \<Rightarrow> bool" where
  "is_dispatch (Dispatch p) = True"
| "is_dispatch ev = False"

fun is_client_call :: "event \<Rightarrow> bool" where
  "is_client_call (Call_initActionClient p) = True"
| "is_client_call ev = False"

text \<open>The failures the \<open>onError\<close> handler was called with, in order.\<close>

definition handler_calls :: "event list \<Rightarrow> js_value list" where
  "handler_calls t = concat (map (\<lambda>ev. case ev of Call_onError e \<Rightarrow> [e] | _ \<Rightarrow> []) t)"

section \<open>Example inputs\<close>

definition example_utils :: utils where
  "example_utils =
     \<lparr>propNameValuesToObject = (\<lambda>names vals. JS_object (zip names vals)),
      JSON_stringify = (\<lambda>v. ''json'')\<rparr>"

definition resolves_with :: "js_value \<Rightarrow> js_value \<Rightarrow> action_return" where
  "resolves_with v props = Returns_promise (Fulfilled v)"

definition rejects_with :: "js_value \<Rightarrow> js_value \<Rightarrow> action_return" where
  "rejects_with e props = Returns_promise (Rejected e)"

definition returns_value :: "js_value \<Rightarrow> js_value \<Rightarrow> action_return" where
  "returns_value v props = Returns v"

definition throws_value :: "js_value \<Rightarrow> js_value \<Rightarrow> action_return" where
  "throws_value e props = Throws e"

definition handler_ok :: "js_value \<Rightarrow> handler_return" where
  "handler_ok e = Handler_returns"

definition handler_failing :: "js_value \<Rightarrow> handler_return" where
  "handler_failing e = Handler_throws (JS_string ''handler failed'')"

text \<open>
  A component \<open>Page\<close> with one init prop, whose init state is the whole state; the
  handler, the two actions and \<open>allowLazy\<close> vary.
\<close>

definition example_config ::
  "(js_value \<Rightarrow> handler_return) option \<Rightarrow> (js_value \<Rightarrow> action_return) option \<Rightarrow>
   (js_value \<Rightarrow> action_return) option \<Rightarrow> bool \<Rightarrow> init_state option init_config" where
  "example_config h f g lazy =
     \<lparr>componentId = ''Page'', initProps = [''id''],
      initAction = f, initActionClient = g, initActionObjectParam = False,
      options = \<lparr>onError = h, getInitState = (\<lambda>s. s),
                 initSelf = INIT_SELF_ASYNC, allowLazy = lazy\<rparr>\<rparr>"

definition example_state :: "init_mode \<Rightarrow> (string \<Rightarrow> bool option) \<Rightarrow> init_state option" where
  "example_state m p = Some \<lparr>mode = m, prepared = p\<rparr>"

definition nothing_prepared :: "string \<Rightarrow> bool option" where
  "nothing_prepared = Map.empty"

definition prepared_only :: "string \<Rightarrow> bool \<Rightarrow> string \<Rightarrow> bool option" where
  "prepared_only k b = [k \<mapsto> b]"

section \<open>The steps of the chain\<close>

lemmas example_defs =
  example_utils_def resolves_with_def rejects_with_def returns_value_def throws_value_def
  handler_ok_def handler_failing_def example_config_def example_state_def
  nothing_prepared_def prepared_only_def

lemmas model_defs =
  initComponent_def validation_def decision_def execution_def runActions_def
  callInitAction_def callInitActionClient_def handleError_def invoke_def
  promise_then_def promise_catch_def Promise_resolve_def
  start_notification_def end_notification_def new_PrepareValidationError_def Let_def

lemma initComponent_valid:
  "validation u C vs k caller st = Inr (cfg, sia, siac) \<Longrightarrow>
   initComponent u C vs k caller st = execution u cfg vs k caller sia siac"
  by (simp add: initComponent_def)

lemma initComponent_invalid:
  "validation u C vs k caller st = Inl e \<Longrightarrow> initComponent u C vs k caller st = (Threw e, [])"
  by (simp add: initComponent_def)

lemma execution_not_threw:
  "execution u cfg vs k caller sia siac \<noteq> (Threw e, t)"
  by (auto simp: execution_def Let_def split: prod.splits)

lemma initComponent_threw:
  "initComponent u C vs k caller st = (Threw e, t) \<Longrightarrow>
   validation u C vs k caller st = Inl e \<and> t = []"
  by (auto simp: initComponent_def execution_not_threw split: sum.splits)

lemma validation_no_config:
  "validation u None vs k caller st = Inl (JS_error MissingInitConfig)"
  by (simp add: validation_def)

lemma validation_no_state:
  "getInitState (options cfg) st = None \<Longrightarrow>
   validation u (Some cfg) vs k caller st = Inl (JS_error MissingInitState)"
  by (simp add: validation_def)

lemma validation_invalid_caller:
  assumes "getInitState (options cfg) st = Some ist"
    and "caller \<notin> {Some ''prepareComponent'', Some ''willMount'', Some ''didMount'',
                    Some ''willReceiveProps''}"
  shows "validation u (Some cfg) vs k caller st = Inl (JS_error (InvalidCaller caller))"
  using assms by (simp add: validation_def decision_def)

lemma validation_missing:
  assumes "getInitState (options cfg) st = Some ist"
    and "decision caller (initAction cfg \<noteq> None) (initActionClient cfg \<noteq> None) (mode ist)
           (prepared ist k \<noteq> None) (initSelf (options cfg)) (allowLazy (options cfg)) =
         Inr (True, sia, siac)"
    and "prepared ist k = None"
  shows "validation u (Some cfg) vs k caller st =
           Inl (JS_error (PrepareValidationError
             (PreparationMissing (componentId cfg)
                (JSON_stringify u (propNameValuesToObject u (initProps cfg) vs))) None))"
  using assms by (simp add: validation_def new_PrepareValidationError_def)

lemma validation_pending:
  assumes "getInitState (options cfg) st = Some ist"
    and "decision caller (initAction cfg \<noteq> None) (initActionClient cfg \<noteq> None) (mode ist)
           (prepared ist k \<noteq> None) (initSelf (options cfg)) (allowLazy (options cfg)) =
         Inr (True, sia, siac)"
    and "prepared ist k = Some False"
  shows "validation u (Some cfg) vs k caller st =
           Inl (JS_error (PrepareValidationError (PreparationPending (componentId cfg)) None))"
  using assms by (simp add: validation_def new_PrepareValidationError_def)

lemma decision_errorNotPrepared:
  "decision caller hp hr m ip s lazy = Inr (True, sia, siac) \<Longrightarrow>
   caller = Some ''willMount'' \<and> hp \<and> m = MODE_PREPARE \<and> \<not> lazy \<and> \<not> sia \<and> \<not> siac"
  by (auto simp: decision_def split: if_splits)

lemma validation_scheduled:
  "validation u C vs k caller st = Inr (cfg, sia, siac) \<Longrightarrow>
   C = Some cfg \<and> (sia \<longrightarrow> initAction cfg \<noteq> None) \<and> (siac \<longrightarrow> initActionClient cfg \<noteq> None)"
  by (auto simp: validation_def decision_def Let_def
      split: option.splits sum.splits if_splits prod.splits)

lemma callInitAction_events:
  "snd (callInitAction cfg sia obj) =
     (if sia \<and> initAction cfg \<noteq> None then [Call_initAction obj] else [])"
  by (auto simp: callInitAction_def invoke_def split: option.splits action_return.splits sum.splits)

lemma callInitActionClient_events:
  "snd (callInitActionClient cfg sia siac obj v) =
     (if siac \<and> initActionClient cfg \<noteq> None then [Call_initActionClient obj] else [])"
  by (auto simp: callInitActionClient_def invoke_def promise_then_def
      split: option.splits action_return.splits sum.splits settlement.splits)

lemma callInitAction_skipped:
  "callInitAction cfg False obj = (Fulfilled JS_undefined, [])"
  by (simp add: callInitAction_def)

lemma callInitAction_promise:
  "initAction cfg = Some f \<Longrightarrow> f obj = Returns_promise s \<Longrightarrow>
   callInitAction cfg True obj = (s, [Call_initAction obj])"
  by (simp add: callInitAction_def invoke_def)

lemma callInitActionClient_skipped:
  "callInitActionClient cfg sia False obj v = (Fulfilled (if sia then v else JS_undefined), [])"
  by (simp add: callInitActionClient_def promise_then_def)

lemma callInitActionClient_fulfilled:
  "initActionClient cfg = Some g \<Longrightarrow> g obj = Returns_promise (Fulfilled cv) \<Longrightarrow>
   callInitActionClient cfg sia True obj v =
     (Fulfilled (if sia then JS_array [v, cv] else cv), [Call_initActionClient obj])"
  by (simp add: callInitActionClient_def invoke_def promise_then_def)

lemma runActions_eq:
  "runActions cfg sia siac obj =
     (case callInitAction cfg sia obj of
        (Fulfilled v, t1) \<Rightarrow>
          (fst (callInitActionClient cfg sia siac obj v),
           t1 @ snd (callInitActionClient cfg sia siac obj v))
      | (Rejected e, t1) \<Rightarrow> (Rejected e, t1)
      | (Pending, t1) \<Rightarrow> (Pending, t1))"
  by (simp add: runActions_def promise_then_def Promise_resolve_def
      split: prod.splits settlement.splits)

text \<open>
  A scheduled action that throws, or whose promise is rejected, makes the action steps
  fail with that failure; the restricted action gets to fail only when the first step is
  fulfilled.
\<close>

lemma primary_failure:
  assumes "initAction cfg = Some f"
    and "f obj = Throws e \<or> f obj = Returns_promise (Rejected e)"
  shows "runActions cfg True siac obj = (Rejected e, [Call_initAction obj])"
  using assms by (auto simp: runActions_eq callInitAction_def invoke_def)

lemma restricted_failure:
  assumes "callInitAction cfg sia obj = (Fulfilled v, t1)"
    and "initActionClient cfg = Some g"
    and "g obj = Throws e \<or> g obj = Returns_promise (Rejected e)"
  shows "runActions cfg sia True obj = (Rejected e, t1 @ [Call_initActionClient obj])"
  using assms by (auto simp: runActions_eq callInitActionClient_def invoke_def promise_then_def)

lemma runActions_none: "runActions cfg False False obj = (Fulfilled JS_undefined, [])"
  by (simp add: runActions_def callInitAction_def callInitActionClient_def promise_then_def
      Promise_resolve_def)

lemma runActions_rejected_scheduled:
  "runActions cfg sia siac obj = (Rejected e, t0) \<Longrightarrow> sia \<or> siac"
  using runActions_none [of cfg obj] by (cases sia; cases siac) auto

lemma runActions_no_dispatch:
  "runActions cfg sia siac obj = (s, t) \<Longrightarrow> \<forall>ev \<in> set t. \<not> is_dispatch ev"
  using callInitAction_events [of cfg sia obj] callInitActionClient_events [of cfg sia siac obj]
  by (auto simp: runActions_eq split: prod.splits settlement.splits if_splits)

lemma runActions_no_handler_calls:
  "runActions cfg sia siac obj = (s, t) \<Longrightarrow> handler_calls t = []"
  using callInitAction_events [of cfg sia obj] callInitActionClient_events [of cfg sia siac obj]
  by (auto simp: runActions_eq handler_calls_def split: prod.splits settlement.splits if_splits)

lemma count_no_dispatch:
  "\<forall>ev \<in> set t. \<not> is_dispatch ev \<Longrightarrow> count_list t (Dispatch p) = 0"
  by (induction t) auto

lemma start_not_end: "start_notification k c \<noteq> end_notification k c"
  by (simp add: start_notification_def end_notification_def)

lemma handleError_reraise:
  "onError (options cfg) = None \<Longrightarrow> handleError cfg d e = (Rejected e, [Dispatch d])"
  by (simp add: handleError_def)

lemma handleError_flagged:
  "onError (options cfg) = Some h \<Longrightarrow> get_property e ''isInvalidReturnError'' = Inr fl \<Longrightarrow>
   truthy fl \<Longrightarrow> handleError cfg d e = (Rejected e, [Dispatch d])"
  by (simp add: handleError_def)

lemma handleError_handled:
  "onError (options cfg) = Some h \<Longrightarrow> get_property e ''isInvalidReturnError'' = Inr fl \<Longrightarrow>
   \<not> truthy fl \<Longrightarrow> h e = Handler_returns \<Longrightarrow>
   handleError cfg d e = (Fulfilled JS_undefined, [Call_onError e])"
  by (simp add: handleError_def)

lemma handleError_handler_throws:
  "onError (options cfg) = Some h \<Longrightarrow> get_property e ''isInvalidReturnError'' = Inr fl \<Longrightarrow>
   \<not> truthy fl \<Longrightarrow> h e = Handler_throws e' \<Longrightarrow>
   handleError cfg d e = (Rejected e', [Call_onError e])"
  by (simp add: handleError_def)

lemma handleError_invalid_return:
  "handleError cfg d (JS_error (InvalidActionReturn l ty c)) =
     (Rejected (JS_error (InvalidActionReturn l ty c)), [Dispatch d])"
  by (simp add: handleError_def split: option.splits)

lemma handleError_no_client_call:
  "\<forall>ev \<in> set (snd (handleError cfg d e)). \<not> is_client_call ev"
  by (auto simp: handleError_def split: option.splits sum.splits handler_return.splits)

lemma execution_fulfilled:
  assumes "sia \<or> siac"
    and "runActions cfg sia siac (propNameValuesToObject u (initProps cfg) vs) = (Fulfilled v, t0)"
  shows "execution u cfg vs k caller sia siac =
           (Returned (Fulfilled v),
            Dispatch (start_notification k caller) # t0 @ [Dispatch (end_notification k caller)])"
  using assms by (auto simp: execution_def promise_then_def promise_catch_def Let_def)

lemma execution_pending:
  assumes "sia \<or> siac"
    and "runActions cfg sia siac (propNameValuesToObject u (initProps cfg) vs) = (Pending, t0)"
  shows "execution u cfg vs k caller sia siac =
           (Returned Pending, Dispatch (start_notification k caller) # t0)"
  using assms by (auto simp: execution_def promise_then_def promise_catch_def Let_def)

lemma execution_rejected:
  assumes "sia \<or> siac"
    and "runActions cfg sia siac (propNameValuesToObject u (initProps cfg) vs) = (Rejected e, t0)"
  shows "execution u cfg vs k caller sia siac =
           (case handleError cfg (end_notification k caller) e of
              (Fulfilled v, t1) \<Rightarrow>
                (Returned (Fulfilled v),
                 Dispatch (start_notification k caller) # t0 @ t1 @
                   [Dispatch (end_notification k caller)])
            | (Rejected e', t1) \<Rightarrow>
                (Returned (Rejected e'), Dispatch (start_notification k caller) # t0 @ t1)
            | (Pending, t1) \<Rightarrow>
                (Returned Pending, Dispatch (start_notification k caller) # t0 @ t1))"
  using assms
  by (auto simp: execution_def promise_then_def promise_catch_def Let_def
      split: prod.splits settlement.splits)

lemma execution_trace_shape:
  assumes "sia \<or> siac"
  shows "\<exists>rest. snd (execution u cfg vs k caller sia siac) =
           Dispatch (start_notification k caller) #
             snd (runActions cfg sia siac (propNameValuesToObject u (initProps cfg) vs)) @ rest \<and>
           (\<forall>ev \<in> set rest. \<not> is_client_call ev)"
proof -
  obtain s0 t0 where r: "runActions cfg sia siac (propNameValuesToObject u (initProps cfg) vs) =
      (s0, t0)" by (cases "runActions cfg sia siac (propNameValuesToObject u (initProps cfg) vs)")
  show ?thesis
  proof (cases s0)
    case (Fulfilled x)
    then show ?thesis using r by (simp add: execution_fulfilled [OF assms])
  next
    case Pending
    then show ?thesis using r by (simp add: execution_pending [OF assms])
  next
    case (Rejected e)
    then show ?thesis
      using r handleError_no_client_call [of cfg "end_notification k caller" e]
      by (auto simp: execution_rejected [OF assms] split: prod.splits settlement.splits)
  qed
qed

lemma end_count_success:
  "\<forall>ev \<in> set t0. \<not> is_dispatch ev \<Longrightarrow>
   end_count k c (Dispatch (start_notification k c) # t0 @ [Dispatch (end_notification k c)]) = 1"
  by (simp add: end_count_def count_no_dispatch start_not_end)

lemma end_count_handled:
  "\<forall>ev \<in> set t0. \<not> is_dispatch ev \<Longrightarrow>
   end_count k c (Dispatch (start_notification k c) # t0 @ [Call_onError e] @
     [Dispatch (end_notification k c)]) = 1"
  by (simp add: end_count_def count_no_dispatch start_not_end)

lemma end_count_handler_threw:
  "\<forall>ev \<in> set t0. \<not> is_dispatch ev \<Longrightarrow>
   end_count k c (Dispatch (start_notification k c) # t0 @ [Call_onError e]) = 0"
  by (simp add: end_count_def count_no_dispatch start_not_end)

lemma get_property_defined:
  "x \<noteq> JS_undefined \<Longrightarrow> x \<noteq> JS_null \<Longrightarrow> \<exists>y. get_property x p = Inr y"
proof (cases x)
  case (JS_error e)
  then show ?thesis by (cases e) simp_all
qed simp_all

section \<open>The decision table\<close>

text \<open>
  C1. The decision of the code is the decision table of the specification: for each of
  the four triggers, under its name in the code, and for every mode, preparedness,
  \<open>allowLazy\<close>, \<open>initSelf\<close> and presence of the two actions, the three flags are the
  table's row; every other caller gives the invalid-caller error.
\<close>

theorem C1_decision_table:
  "decision (Some (caller_name c)) hasPrimary hasRestricted m isPrepared s lazy =
     Inr (spec_decision_table c hasPrimary hasRestricted m isPrepared s lazy) \<and>
   ((\<forall>c'. caller \<noteq> Some (caller_name c')) \<longrightarrow>
      decision caller hasPrimary hasRestricted m isPrepared s lazy =
        Inl (JS_error (InvalidCaller caller)))"
proof
  show "decision (Some (caller_name c)) hasPrimary hasRestricted m isPrepared s lazy =
     Inr (spec_decision_table c hasPrimary hasRestricted m isPrepared s lazy)"
    by (cases c) (simp_all add: decision_def)
next
  show "(\<forall>c'. caller \<noteq> Some (caller_name c')) \<longrightarrow>
      decision caller hasPrimary hasRestricted m isPrepared s lazy =
        Inl (JS_error (InvalidCaller caller))"
  proof
    assume other: "\<forall>c'. caller \<noteq> Some (caller_name c')"
    from other [rule_format, of PREPARE_PASS] other [rule_format, of WILL_MOUNT]
      other [rule_format, of DID_MOUNT] other [rule_format, of WILL_RECEIVE_INPUTS]
    show "decision caller hasPrimary hasRestricted m isPrepared s lazy =
        Inl (JS_error (InvalidCaller caller))"
      by (simp add: decision_def)
  qed
qed

theorem C1_decision_table_witness:
  "decision (Some ''willMount'') True False MODE_PREPARE False INIT_SELF_ASYNC False =
     Inr (True, False, False) \<and>
   decision (Some ''render'') True False MODE_PREPARE False INIT_SELF_ASYNC False =
     Inl (JS_error (InvalidCaller (Some ''render'')))"
proof -
  have other: "\<forall>c'. Some ''render'' \<noteq> Some (caller_name c')"
  proof
    fix c' show "Some ''render'' \<noteq> Some (caller_name c')" by (cases c') simp_all
  qed
  show ?thesis
    using C1_decision_table [of WILL_MOUNT True False MODE_PREPARE False INIT_SELF_ASYNC False
        "Some ''render''"] other
    by simp
qed

section \<open>Validation failures\<close>

text \<open>
  C4. When the decision sets \<open>errorNotPrepared\<close> (which happens exactly for the caller
  \<open>willMount\<close> with a primary action, in mode PREPARE, with \<open>allowLazy\<close> off), a key with
  no \<open>prepared\<close> entry makes the call throw the preparation-missing error, which carries
  the component id and the serialized props object, and a key whose entry is \<open>false\<close>
  makes it throw the preparation-pending error; in both cases nothing is dispatched and
  no action is called.
\<close>

theorem C4_unprepared_fails:
  assumes "getInitState (options cfg) st = Some ist"
    and "decision caller (initAction cfg \<noteq> None) (initActionClient cfg \<noteq> None) (mode ist)
           (prepared ist k \<noteq> None) (initSelf (options cfg)) (allowLazy (options cfg)) =
         Inr (True, sia, siac)"
  shows "caller = Some ''willMount'' \<and> initAction cfg \<noteq> None \<and> mode ist = MODE_PREPARE \<and>
         \<not> allowLazy (options cfg) \<and>
         (prepared ist k = None \<longrightarrow>
            initComponent u (Some cfg) vs k caller st =
              (Threw (JS_error (PrepareValidationError
                 (PreparationMissing (componentId cfg)
                    (JSON_stringify u (propNameValuesToObject u (initProps cfg) vs))) None)),
               [])) \<and>
         (prepared ist k = Some False \<longrightarrow>
            initComponent u (Some cfg) vs k caller st =
              (Threw (JS_error (PrepareValidationError
                 (PreparationPending (componentId cfg)) None)), []))"
  using decision_errorNotPrepared [OF assms(2)]
    validation_missing [OF assms, THEN initComponent_invalid]
    validation_pending [OF assms, THEN initComponent_invalid]
  by simp

theorem C4_unprepared_fails_witness:
  "initComponent example_utils
     (Some (example_config None (Some (resolves_with (JS_string ''A''))) None False))
     [JS_number 7] ''Page[7]'' (Some ''willMount'')
     (example_state MODE_PREPARE nothing_prepared) =
     (Threw (JS_error (PrepareValidationError (PreparationMissing ''Page'' ''json'') None)), []) \<and>
   initComponent example_utils
     (Some (example_config None (Some (resolves_with (JS_string ''A''))) None False))
     [JS_number 7] ''Page[7]'' (Some ''willMount'')
     (example_state MODE_PREPARE (prepared_only ''Page[7]'' False)) =
     (Threw (JS_error (PrepareValidationError (PreparationPending ''Page'') None)), [])"
proof -
  let ?cfg = "example_config None (Some (resolves_with (JS_string ''A''))) None False"
  have g1: "getInitState (options ?cfg) (example_state MODE_PREPARE nothing_prepared) =
      Some \<lparr>mode = MODE_PREPARE, prepared = nothing_prepared\<rparr>"
    by (simp add: example_defs)
  have d1: "decision (Some ''willMount'') (initAction ?cfg \<noteq> None) (initActionClient ?cfg \<noteq> None)
      (mode \<lparr>mode = MODE_PREPARE, prepared = nothing_prepared\<rparr>)
      (prepared \<lparr>mode = MODE_PREPARE, prepared = nothing_prepared\<rparr> ''Page[7]'' \<noteq> None)
      (initSelf (options ?cfg)) (allowLazy (options ?cfg)) = Inr (True, False, False)"
    by (simp add: example_defs decision_def)
  have g2: "getInitState (options ?cfg)
      (example_state MODE_PREPARE (prepared_only ''Page[7]'' False)) =
      Some \<lparr>mode = MODE_PREPARE, prepared = prepared_only ''Page[7]'' False\<rparr>"
    by (simp add: example_defs)
  have d2: "decision (Some ''willMount'') (initAction ?cfg \<noteq> None) (initActionClient ?cfg \<noteq> None)
      (mode \<lparr>mode = MODE_PREPARE, prepared = prepared_only ''Page[7]'' False\<rparr>)
      (prepared \<lparr>mode = MODE_PREPARE, prepared = prepared_only ''Page[7]'' False\<rparr> ''Page[7]''
         \<noteq> None)
      (initSelf (options ?cfg)) (allowLazy (options ?cfg)) = Inr (True, False, False)"
    by (simp add: example_defs decision_def)
  show ?thesis
    using C4_unprepared_fails [OF g1 d1, of example_utils "[JS_number 7]"]
      C4_unprepared_fails [OF g2 d2, of example_utils "[JS_number 7]"]
    by (simp add: example_defs)
qed

text \<open>
  C6. Each of the five validation failures (no init config, no init state, invalid
  caller, preparation missing, preparation pending) is thrown by the call itself, before
  it returns a promise, with no effect at all: nothing is dispatched and no action or
  handler is called. Conversely a call that throws has had no effect and has failed the
  validation.
\<close>

theorem C6_validation_failures_atomic:
  "(C = None \<longrightarrow>
      initComponent u C vs k caller st = (Threw (JS_error MissingInitConfig), [])) \<and>
   (\<forall>cfg. C = Some cfg \<and> getInitState (options cfg) st = None \<longrightarrow>
      initComponent u C vs k caller st = (Threw (JS_error MissingInitState), [])) \<and>
   (\<forall>cfg ist. C = Some cfg \<and> getInitState (options cfg) st = Some ist \<and>
      caller \<notin> {Some ''prepareComponent'', Some ''willMount'', Some ''didMount'',
                  Some ''willReceiveProps''} \<longrightarrow>
      initComponent u C vs k caller st = (Threw (JS_error (InvalidCaller caller)), [])) \<and>
   (\<forall>cfg ist sia siac. C = Some cfg \<and> getInitState (options cfg) st = Some ist \<and>
      decision caller (initAction cfg \<noteq> None) (initActionClient cfg \<noteq> None) (mode ist)
        (prepared ist k \<noteq> None) (initSelf (options cfg)) (allowLazy (options cfg)) =
        Inr (True, sia, siac) \<and> prepared ist k = None \<longrightarrow>
      initComponent u C vs k caller st =
        (Threw (JS_error (PrepareValidationError
           (PreparationMissing (componentId cfg)
              (JSON_stringify u (propNameValuesToObject u (initProps cfg) vs))) None)), [])) \<and>
   (\<forall>cfg ist sia siac. C = Some cfg \<and> getInitState (options cfg) st = Some ist \<and>
      decision caller (initAction cfg \<noteq> None) (initActionClient cfg \<noteq> None) (mode ist)
        (prepared ist k \<noteq> None) (initSelf (options cfg)) (allowLazy (options cfg)) =
        Inr (True, sia, siac) \<and> prepared ist k = Some False \<longrightarrow>
      initComponent u C vs k caller st =
        (Threw (JS_error (PrepareValidationError
           (PreparationPending (componentId cfg)) None)), [])) \<and>
   (\<forall>e t. initComponent u C vs k caller st = (Threw e, t) \<longrightarrow>
      t = [] \<and> validation u C vs k caller st = Inl e)"
proof (intro conjI allI impI)
  assume "C = None"
  then show "initComponent u C vs k caller st = (Threw (JS_error MissingInitConfig), [])"
    by (simp add: validation_no_config initComponent_invalid)
next
  fix cfg assume "C = Some cfg \<and> getInitState (options cfg) st = None"
  then show "initComponent u C vs k caller st = (Threw (JS_error MissingInitState), [])"
    by (simp add: validation_no_state initComponent_invalid)
next
  fix cfg ist
  assume "C = Some cfg \<and> getInitState (options cfg) st = Some ist \<and>
      caller \<notin> {Some ''prepareComponent'', Some ''willMount'', Some ''didMount'',
                  Some ''willReceiveProps''}"
  then show "initComponent u C vs k caller st = (Threw (JS_error (InvalidCaller caller)), [])"
    using validation_invalid_caller [of cfg st ist caller u vs k]
    by (simp add: initComponent_invalid)
next
  fix cfg ist sia siac
  assume "C = Some cfg \<and> getInitState (options cfg) st = Some ist \<and>
      decision caller (initAction cfg \<noteq> None) (initActionClient cfg \<noteq> None) (mode ist)
        (prepared ist k \<noteq> None) (initSelf (options cfg)) (allowLazy (options cfg)) =
        Inr (True, sia, siac) \<and> prepared ist k = None"
  then have c: "C = Some cfg" and g: "getInitState (options cfg) st = Some ist"
    and d: "decision caller (initAction cfg \<noteq> None) (initActionClient cfg \<noteq> None) (mode ist)
        (prepared ist k \<noteq> None) (initSelf (options cfg)) (allowLazy (options cfg)) =
        Inr (True, sia, siac)"
    and p: "prepared ist k = None" by blast+
  show "initComponent u C vs k caller st =
        (Threw (JS_error (PrepareValidationError
           (PreparationMissing (componentId cfg)
              (JSON_stringify u (propNameValuesToObject u (initProps cfg) vs))) None)), [])"
    unfolding c by (rule validation_missing [OF g d p, THEN initComponent_invalid])
next
  fix cfg ist sia siac
  assume "C = Some cfg \<and> getInitState (options cfg) st = Some ist \<and>
      decision caller (initAction cfg \<noteq> None) (initActionClient cfg \<noteq> None) (mode ist)
        (prepared ist k \<noteq> None) (initSelf (options cfg)) (allowLazy (options cfg)) =
        Inr (True, sia, siac) \<and> prepared ist k = Some False"
  then have c: "C = Some cfg" and g: "getInitState (options cfg) st = Some ist"
    and d: "decision caller (initAction cfg \<noteq> None) (initActionClient cfg \<noteq> None) (mode ist)
        (prepared ist k \<noteq> None) (initSelf (options cfg)) (allowLazy (options cfg)) =
        Inr (True, sia, siac)"
    and p: "prepared ist k = Some False" by blast+
  show "initComponent u C vs k caller st =
        (Threw (JS_error (PrepareValidationError
           (PreparationPending (componentId cfg)) None)), [])"
    unfolding c by (rule validation_pending [OF g d p, THEN initComponent_invalid])
next
  fix e t assume "initComponent u C vs k caller st = (Threw e, t)"
  then show "t = []" by (simp add: initComponent_threw)
next
  fix e t assume "initComponent u C vs k caller st = (Threw e, t)"
  then show "validation u C vs k caller st = Inl e" by (simp add: initComponent_threw)
qed

theorem C6_validation_failures_atomic_witness:
  "initComponent example_utils None [JS_number 7] ''Page[7]'' (Some ''willMount'')
     (example_state MODE_PREPARE nothing_prepared) =
     (Threw (JS_error MissingInitConfig), []) \<and>
   initComponent example_utils
     (Some (example_config None (Some (resolves_with (JS_string ''A''))) None False))
     [JS_number 7] ''Page[7]'' (Some ''willMount'') None =
     (Threw (JS_error MissingInitState), []) \<and>
   initComponent example_utils
     (Some (example_config None (Some (resolves_with (JS_string ''A''))) None False))
     [JS_number 7] ''Page[7]'' (Some ''render'') (example_state MODE_PREPARE nothing_prepared) =
     (Threw (JS_error (InvalidCaller (Some ''render''))), []) \<and>
   initComponent example_utils
     (Some (example_config None (Some (resolves_with (JS_string ''A''))) None False))
     [JS_number 7] ''Page[7]'' (Some ''willMount'')
     (example_state MODE_PREPARE nothing_prepared) =
     (Threw (JS_error (PrepareValidationError (PreparationMissing ''Page'' ''json'') None)), []) \<and>
   initComponent example_utils
     (Some (example_config None (Some (resolves_with (JS_string ''A''))) None False))
     [JS_number 7] ''Page[7]'' (Some ''willMount'')
     (example_state MODE_PREPARE (prepared_only ''Page[7]'' False)) =
     (Threw (JS_error (PrepareValidationError (PreparationPending ''Page'') None)), [])"
proof -
  let ?cfg = "example_config None (Some (resolves_with (JS_string ''A''))) None False"
  note a = C6_validation_failures_atomic [of None example_utils "[JS_number 7]" "''Page[7]''"
      "Some ''willMount''" "example_state MODE_PREPARE nothing_prepared", THEN conjunct1]
  note b = C6_validation_failures_atomic [of "Some ?cfg" example_utils "[JS_number 7]"
      "''Page[7]''" "Some ''willMount''" None, THEN conjunct2, THEN conjunct1, rule_format,
      of ?cfg]
  note c = C6_validation_failures_atomic [of "Some ?cfg" example_utils "[JS_number 7]"
      "''Page[7]''" "Some ''render''" "example_state MODE_PREPARE nothing_prepared",
      THEN conjunct2, THEN conjunct2, THEN conjunct1, rule_format,
      of ?cfg "\<lparr>mode = MODE_PREPARE, prepared = nothing_prepared\<rparr>"]
  note d = C6_validation_failures_atomic [of "Some ?cfg" example_utils "[JS_number 7]"
      "''Page[7]''" "Some ''willMount''" "example_state MODE_PREPARE nothing_prepared",
      THEN conjunct2, THEN conjunct2, THEN conjunct2, THEN conjunct1, rule_format,
      of ?cfg "\<lparr>mode = MODE_PREPARE, prepared = nothing_prepared\<rparr>" False False]
  note e = C6_validation_failures_atomic [of "Some ?cfg" example_utils "[JS_number 7]"
      "''Page[7]''" "Some ''willMount''"
      "example_state MODE_PREPARE (prepared_only ''Page[7]'' False)",
      THEN conjunct2, THEN conjunct2, THEN conjunct2, THEN conjunct2, THEN conjunct1,
      rule_format,
      of ?cfg "\<lparr>mode = MODE_PREPARE, prepared = prepared_only ''Page[7]'' False\<rparr>" False False]
  show ?thesis
    using a b c d e
    by (simp add: example_defs decision_def)
qed

section \<open>Nothing to do\<close>

text \<open>
  C9. An invocation that passes the validation and whose decision schedules neither
  action returns a promise fulfilled with \<open>undefined\<close> and has no effect: no
  notification is dispatched, neither the start nor the end one.
\<close>

theorem C9_nothing_scheduled:
  "validation u C vs k caller st = Inr (cfg, False, False) \<Longrightarrow>
   initComponent u C vs k caller st = (Returned (Fulfilled JS_undefined), [])"
  by (simp add: initComponent_def execution_def Promise_resolve_def)

theorem C9_nothing_scheduled_witness:
  "validation example_utils
     (Some (example_config None (Some (resolves_with (JS_string ''A''))) None False))
     [JS_number 7] ''Page[7]'' (Some ''prepareComponent'')
     (example_state MODE_PREPARE [''Page[7]'' \<mapsto> True]) =
     Inr (example_config None (Some (resolves_with (JS_string ''A''))) None False, False, False) \<and>
   initComponent example_utils
     (Some (example_config None (Some (resolves_with (JS_string ''A''))) None False))
     [JS_number 7] ''Page[7]'' (Some ''prepareComponent'')
     (example_state MODE_PREPARE [''Page[7]'' \<mapsto> True]) =
     (Returned (Fulfilled JS_undefined), [])"
proof -
  have v: "validation example_utils
     (Some (example_config None (Some (resolves_with (JS_string ''A''))) None False))
     [JS_number 7] ''Page[7]'' (Some ''prepareComponent'')
     (example_state MODE_PREPARE [''Page[7]'' \<mapsto> True]) =
     Inr (example_config None (Some (resolves_with (JS_string ''A''))) None False, False, False)"
    by (simp add: validation_def decision_def example_config_def example_state_def)
  show ?thesis using v C9_nothing_scheduled [OF v] by simp
qed

section \<open>Results and order of the two actions\<close>

text \<open>
  C8. When an invocation passes the validation and every scheduled action returns a
  promise that is fulfilled, the returned promise is fulfilled with the array of the two
  values when both actions ran, with the one value when one action ran, and with
  \<open>undefined\<close> when none ran.
\<close>

theorem C8_combined_result:
  assumes v: "validation u C vs k caller st = Inr (cfg, sia, siac)"
    and p: "sia \<longrightarrow> (\<exists>f. initAction cfg = Some f \<and>
              f (propNameValuesToObject u (initProps cfg) vs) = Returns_promise (Fulfilled pv))"
    and c: "siac \<longrightarrow> (\<exists>g. initActionClient cfg = Some g \<and>
              g (propNameValuesToObject u (initProps cfg) vs) = Returns_promise (Fulfilled cv))"
  shows "fst (initComponent u C vs k caller st) =
           Returned (Fulfilled (if sia \<and> siac then JS_array [pv, cv]
                                else if sia then pv
                                else if siac then cv
                                else JS_undefined))"
proof (cases "sia \<or> siac")
  case False
  then show ?thesis
    by (simp add: initComponent_valid [OF v] execution_def Promise_resolve_def)
next
  case True
  let ?obj = "propNameValuesToObject u (initProps cfg) vs"
  have first: "callInitAction cfg sia ?obj =
      (Fulfilled (if sia then pv else JS_undefined), if sia then [Call_initAction ?obj] else [])"
    using p by (auto simp: callInitAction_skipped callInitAction_promise)
  have second: "fst (callInitActionClient cfg sia siac ?obj (if sia then pv else JS_undefined)) =
      Fulfilled (if sia \<and> siac then JS_array [pv, cv]
                 else if sia then pv else if siac then cv else JS_undefined)"
    using c by (auto simp: callInitActionClient_skipped callInitActionClient_fulfilled)
  obtain t0 where "runActions cfg sia siac ?obj =
      (Fulfilled (if sia \<and> siac then JS_array [pv, cv]
                  else if sia then pv else if siac then cv else JS_undefined), t0)"
    using first second by (simp add: runActions_eq)
  then show ?thesis
    by (simp add: initComponent_valid [OF v] execution_fulfilled [OF True])
qed

theorem C8_combined_result_witness:
  "fst (initComponent example_utils
     (Some (example_config None (Some (resolves_with (JS_string ''P'')))
        (Some (resolves_with (JS_string ''C''))) True))
     [JS_number 7] ''Page[7]'' (Some ''didMount'')
     (example_state MODE_INIT_SELF nothing_prepared)) =
     Returned (Fulfilled (JS_array [JS_string ''P'', JS_string ''C''])) \<and>
   fst (initComponent example_utils
     (Some (example_config None (Some (resolves_with (JS_string ''A''))) None False))
     [JS_number 7] ''Page[7]'' (Some ''prepareComponent'')
     (example_state MODE_PREPARE nothing_prepared)) =
     Returned (Fulfilled (JS_string ''A''))"
proof -
  let ?b = "example_config None (Some (resolves_with (JS_string ''P'')))
        (Some (resolves_with (JS_string ''C''))) True"
  let ?a = "example_config None (Some (resolves_with (JS_string ''A''))) None False"
  have vb: "validation example_utils (Some ?b) [JS_number 7] ''Page[7]''
      (Some ''didMount'') (example_state MODE_INIT_SELF nothing_prepared) = Inr (?b, True, True)"
    by (simp add: validation_def decision_def example_defs)
  have pb: "True \<longrightarrow> (\<exists>f. initAction ?b = Some f \<and>
      f (propNameValuesToObject example_utils (initProps ?b) [JS_number 7]) =
        Returns_promise (Fulfilled (JS_string ''P'')))"
    by (simp add: example_defs)
  have cb: "True \<longrightarrow> (\<exists>g. initActionClient ?b = Some g \<and>
      g (propNameValuesToObject example_utils (initProps ?b) [JS_number 7]) =
        Returns_promise (Fulfilled (JS_string ''C'')))"
    by (simp add: example_defs)
  have va: "validation example_utils (Some ?a) [JS_number 7] ''Page[7]''
      (Some ''prepareComponent'') (example_state MODE_PREPARE nothing_prepared) =
      Inr (?a, True, False)"
    by (simp add: validation_def decision_def example_defs)
  have pa: "True \<longrightarrow> (\<exists>f. initAction ?a = Some f \<and>
      f (propNameValuesToObject example_utils (initProps ?a) [JS_number 7]) =
        Returns_promise (Fulfilled (JS_string ''A'')))"
    by (simp add: example_defs)
  have ca: "False \<longrightarrow> (\<exists>g. initActionClient ?a = Some g \<and>
      g (propNameValuesToObject example_utils (initProps ?a) [JS_number 7]) =
        Returns_promise (Fulfilled JS_undefined))"
    by simp
  show ?thesis
    using C8_combined_result [OF vb pb cb] C8_combined_result [OF va pa ca] by simp
qed

text \<open>
  C7. Whenever the restricted action is called, the first step of the chain has been
  fulfilled before: the effects up to that call are the start notification and, when the
  primary action is scheduled, its call, and the primary action has returned a promise
  that is fulfilled; when the primary action is skipped, the step is fulfilled with the
  placeholder \<open>undefined\<close> and the restricted action still runs after it.
\<close>

theorem C7_restricted_after_primary:
  assumes v: "validation u C vs k caller st = Inr (cfg, sia, siac)"
    and t: "snd (initComponent u C vs k caller st) = pre @ Call_initActionClient p # post"
  shows "\<exists>pv. callInitAction cfg sia (propNameValuesToObject u (initProps cfg) vs) =
                (Fulfilled pv,
                 if sia then [Call_initAction (propNameValuesToObject u (initProps cfg) vs)]
                 else []) \<and>
              (sia \<longrightarrow> (\<exists>f. initAction cfg = Some f \<and>
                 f (propNameValuesToObject u (initProps cfg) vs) =
                   Returns_promise (Fulfilled pv))) \<and>
              (\<not> sia \<longrightarrow> pv = JS_undefined) \<and>
              pre = Dispatch (start_notification k caller) #
                (if sia then [Call_initAction (propNameValuesToObject u (initProps cfg) vs)]
                 else [])"
proof -
  let ?obj = "propNameValuesToObject u (initProps cfg) vs"
  let ?X = "Call_initActionClient ?obj"
  have sched: "sia \<or> siac"
  proof (rule ccontr)
    assume "\<not> (sia \<or> siac)"
    then have "snd (initComponent u C vs k caller st) = []"
      by (simp add: initComponent_valid [OF v] execution_def)
    with t show False by simp
  qed
  from validation_scheduled [OF v] have has: "sia \<longrightarrow> initAction cfg \<noteq> None" by simp
  obtain s1 t1 where first: "callInitAction cfg sia ?obj = (s1, t1)"
    by (cases "callInitAction cfg sia ?obj")
  have t1: "t1 = (if sia then [Call_initAction ?obj] else [])"
    using callInitAction_events [of cfg sia ?obj] has first by auto
  obtain rest where shape: "snd (initComponent u C vs k caller st) =
      Dispatch (start_notification k caller) # snd (runActions cfg sia siac ?obj) @ rest"
    and rest: "\<forall>ev \<in> set rest. \<not> is_client_call ev"
    using execution_trace_shape [OF sched, of u cfg vs k caller]
    by (auto simp: initComponent_valid [OF v])
  have clean: "\<forall>ev \<in> set (Dispatch (start_notification k caller) # t1). \<not> is_client_call ev"
    by (simp add: t1)
  show ?thesis
  proof (cases s1)
    case (Rejected e)
    with first have "snd (runActions cfg sia siac ?obj) = t1" by (simp add: runActions_eq)
    with shape t have "Call_initActionClient p \<in>
        set ((Dispatch (start_notification k caller) # t1) @ rest)"
      by (metis append_Cons in_set_conv_decomp)
    with clean rest show ?thesis by auto
  next
    case Pending
    with first have "snd (runActions cfg sia siac ?obj) = t1" by (simp add: runActions_eq)
    with shape t have "Call_initActionClient p \<in>
        set ((Dispatch (start_notification k caller) # t1) @ rest)"
      by (metis append_Cons in_set_conv_decomp)
    with clean rest show ?thesis by auto
  next
    case (Fulfilled pv)
    with first have run: "snd (runActions cfg sia siac ?obj) =
        t1 @ snd (callInitActionClient cfg sia siac ?obj pv)" by (simp add: runActions_eq)
    have t2: "snd (callInitActionClient cfg sia siac ?obj pv) = [?X] \<or>
        snd (callInitActionClient cfg sia siac ?obj pv) = []"
      by (simp add: callInitActionClient_events)
    have called: "snd (callInitActionClient cfg sia siac ?obj pv) = [?X]"
    proof (rule ccontr)
      assume "snd (callInitActionClient cfg sia siac ?obj pv) \<noteq> [?X]"
      with t2 have "snd (callInitActionClient cfg sia siac ?obj pv) = []" by simp
      with shape run t have "Call_initActionClient p \<in>
          set ((Dispatch (start_notification k caller) # t1) @ rest)"
        by (metis append_Cons append_Nil2 in_set_conv_decomp)
      with clean rest show False by auto
    qed
    with shape run t have eq: "pre @ Call_initActionClient p # post =
        (Dispatch (start_notification k caller) # t1) @ ?X # rest" by simp
    then have "Call_initActionClient p \<in>
        set ((Dispatch (start_notification k caller) # t1) @ ?X # rest)"
      by (metis in_set_conv_decomp)
    with clean rest have px: "Call_initActionClient p = ?X" by auto
    have "?X \<notin> set (Dispatch (start_notification k caller) # t1)" "?X \<notin> set rest"
      using clean rest by auto
    with eq px have pre: "pre = Dispatch (start_notification k caller) # t1"
      by (metis append_Cons_eq_iff)
    have ret: "sia \<longrightarrow> (\<exists>f. initAction cfg = Some f \<and> f ?obj = Returns_promise (Fulfilled pv))"
      using first Fulfilled
      by (auto simp: callInitAction_def invoke_def
          split: option.splits action_return.splits sum.splits)
    have skip: "\<not> sia \<longrightarrow> pv = JS_undefined"
      using first Fulfilled by (auto simp: callInitAction_skipped)
    show ?thesis using first Fulfilled t1 pre ret skip by auto
  qed
qed

theorem C7_restricted_after_primary_witness:
  "callInitAction
     (example_config None (Some (resolves_with (JS_string ''P'')))
        (Some (resolves_with (JS_string ''C''))) True)
     True (JS_object [(''id'', JS_number 7)]) =
     (Fulfilled (JS_string ''P''), [Call_initAction (JS_object [(''id'', JS_number 7)])]) \<and>
   snd (initComponent example_utils
     (Some (example_config None (Some (resolves_with (JS_string ''P'')))
        (Some (resolves_with (JS_string ''C''))) True))
     [JS_number 7] ''Page[7]'' (Some ''didMount'')
     (example_state MODE_INIT_SELF nothing_prepared)) =
     [Dispatch \<lparr>complete = False, isPrepare = False, prepareKey = ''Page[7]''\<rparr>,
      Call_initAction (JS_object [(''id'', JS_number 7)])] @
     Call_initActionClient (JS_object [(''id'', JS_number 7)]) #
     [Dispatch \<lparr>complete = True, isPrepare = False, prepareKey = ''Page[7]''\<rparr>] \<and>
   callInitAction
     (example_config None (Some (resolves_with (JS_string ''P'')))
        (Some (resolves_with (JS_string ''C''))) False)
     False (JS_object [(''id'', JS_number 7)]) = (Fulfilled JS_undefined, []) \<and>
   snd (initComponent example_utils
     (Some (example_config None (Some (resolves_with (JS_string ''P'')))
        (Some (resolves_with (JS_string ''C''))) False))
     [JS_number 7] ''Page[7]'' (Some ''didMount'')
     (example_state MODE_INIT_SELF nothing_prepared)) =
     [Dispatch \<lparr>complete = False, isPrepare = False, prepareKey = ''Page[7]''\<rparr>] @
     Call_initActionClient (JS_object [(''id'', JS_number 7)]) #
     [Dispatch \<lparr>complete = True, isPrepare = False, prepareKey = ''Page[7]''\<rparr>]"
proof -
  let ?b = "example_config None (Some (resolves_with (JS_string ''P'')))
        (Some (resolves_with (JS_string ''C''))) True"
  let ?c = "example_config None (Some (resolves_with (JS_string ''P'')))
        (Some (resolves_with (JS_string ''C''))) False"
  have vb: "validation example_utils (Some ?b) [JS_number 7] ''Page[7]''
      (Some ''didMount'') (example_state MODE_INIT_SELF nothing_prepared) = Inr (?b, True, True)"
    by (simp add: validation_def decision_def example_defs)
  have tb: "snd (initComponent example_utils (Some ?b) [JS_number 7] ''Page[7]''
      (Some ''didMount'') (example_state MODE_INIT_SELF nothing_prepared)) =
     [Dispatch \<lparr>complete = False, isPrepare = False, prepareKey = ''Page[7]''\<rparr>,
      Call_initAction (JS_object [(''id'', JS_number 7)])] @
     Call_initActionClient (JS_object [(''id'', JS_number 7)]) #
     [Dispatch \<lparr>complete = True, isPrepare = False, prepareKey = ''Page[7]''\<rparr>]"
    by (simp add: model_defs example_defs)
  have vc: "validation example_utils (Some ?c) [JS_number 7] ''Page[7]''
      (Some ''didMount'') (example_state MODE_INIT_SELF nothing_prepared) = Inr (?c, False, True)"
    by (simp add: validation_def decision_def example_defs)
  have tc: "snd (initComponent example_utils (Some ?c) [JS_number 7] ''Page[7]''
      (Some ''didMount'') (example_state MODE_INIT_SELF nothing_prepared)) =
     [Dispatch \<lparr>complete = False, isPrepare = False, prepareKey = ''Page[7]''\<rparr>] @
     Call_initActionClient (JS_object [(''id'', JS_number 7)]) #
     [Dispatch \<lparr>complete = True, isPrepare = False, prepareKey = ''Page[7]''\<rparr>]"
    by (simp add: model_defs example_defs)
  have obj: "propNameValuesToObject example_utils (initProps ?b) [JS_number 7] =
      JS_object [(''id'', JS_number 7)]"
    "propNameValuesToObject example_utils (initProps ?c) [JS_number 7] =
      JS_object [(''id'', JS_number 7)]"
    by (simp_all add: example_defs)
  show ?thesis
    using C7_restricted_after_primary [OF vb tb] C7_restricted_after_primary [OF vc tc] tb tc
    unfolding obj by (auto simp: example_defs)
qed

section \<open>Failures of the actions\<close>

text \<open>
  C2, as amended. For every invocation that passes the validation and schedules at least
  one action, provided that a failure of the action steps that meets a configured
  \<open>onError\<close> handler is not \<open>undefined\<close> or \<open>null\<close> and that the handler returns normally
  when it is called with it, the end notification is dispatched exactly once on every
  exit path: on success, when the failure is handled by \<open>onError\<close>, and when the failure
  is raised again to the caller.
\<close>

theorem C2_end_notification_once:
  assumes v: "validation u C vs k caller st = Inr (cfg, sia, siac)"
    and sched: "sia \<or> siac"
    and ok: "\<forall>e t0 h. runActions cfg sia siac (propNameValuesToObject u (initProps cfg) vs) =
                          (Rejected e, t0) \<and> onError (options cfg) = Some h \<longrightarrow>
               (\<exists>fl. get_property e ''isInvalidReturnError'' = Inr fl \<and>
                     (\<not> truthy fl \<longrightarrow> h e = Handler_returns))"
  shows "\<exists>s t. initComponent u C vs k caller st = (Returned s, t) \<and>
               (s \<noteq> Pending \<longrightarrow> end_count k caller t = 1)"
proof -
  obtain s0 t0 where r: "runActions cfg sia siac (propNameValuesToObject u (initProps cfg) vs) =
      (s0, t0)" by (cases "runActions cfg sia siac (propNameValuesToObject u (initProps cfg) vs)")
  have nd: "\<forall>ev \<in> set t0. \<not> is_dispatch ev" using r by (rule runActions_no_dispatch)
  show ?thesis
  proof (cases s0)
    case (Fulfilled x)
    then show ?thesis
      using r nd by (simp add: initComponent_valid [OF v] execution_fulfilled [OF sched]
          end_count_success)
  next
    case Pending
    then show ?thesis
      using r by (simp add: initComponent_valid [OF v] execution_pending [OF sched])
  next
    case (Rejected e)
    with r have rej: "runActions cfg sia siac (propNameValuesToObject u (initProps cfg) vs) =
      (Rejected e, t0)" by simp
    show ?thesis
    proof (cases "onError (options cfg)")
      case None
      then show ?thesis
        using nd by (simp add: initComponent_valid [OF v] execution_rejected [OF sched rej]
            handleError_reraise end_count_success)
    next
      case (Some h)
      with ok rej obtain fl where fl: "get_property e ''isInvalidReturnError'' = Inr fl"
        and hok: "\<not> truthy fl \<longrightarrow> h e = Handler_returns" by blast
      show ?thesis
      proof (cases "truthy fl")
        case True
        then show ?thesis
          using nd by (simp add: initComponent_valid [OF v] execution_rejected [OF sched rej]
              handleError_flagged [OF Some fl] end_count_success)
      next
        case False
        with hok have "h e = Handler_returns" by simp
        then show ?thesis
          using nd False
          by (simp add: initComponent_valid [OF v] execution_rejected [OF sched rej]
              handleError_handled [OF Some fl] end_count_handled [simplified])
      qed
    qed
  qed
qed

theorem C2_end_notification_once_witness:
  "end_count ''Page[7]'' (Some ''prepareComponent'')
     (snd (initComponent example_utils
        (Some (example_config None (Some (resolves_with (JS_string ''A''))) None False))
        [JS_number 7] ''Page[7]'' (Some ''prepareComponent'')
        (example_state MODE_PREPARE nothing_prepared))) = 1 \<and>
   end_count ''Page[7]'' (Some ''willReceiveProps'')
     (snd (initComponent example_utils
        (Some (example_config (Some handler_ok) (Some (rejects_with (JS_string ''boom''))) None
           False))
        [JS_number 7] ''Page[7]'' (Some ''willReceiveProps'')
        (example_state MODE_INIT_SELF nothing_prepared))) = 1 \<and>
   end_count ''Page[7]'' (Some ''willReceiveProps'')
     (snd (initComponent example_utils
        (Some (example_config None (Some (rejects_with (JS_string ''boom''))) None False))
        [JS_number 7] ''Page[7]'' (Some ''willReceiveProps'')
        (example_state MODE_INIT_SELF nothing_prepared))) = 1"
proof -
  let ?a = "example_config None (Some (resolves_with (JS_string ''A''))) None False"
  let ?b = "example_config (Some handler_ok) (Some (rejects_with (JS_string ''boom''))) None False"
  let ?c = "example_config None (Some (rejects_with (JS_string ''boom''))) None False"
  have oka: "\<forall>e t0 h. runActions ?a True False
        (propNameValuesToObject example_utils (initProps ?a) [JS_number 7]) = (Rejected e, t0) \<and>
        onError (options ?a) = Some h \<longrightarrow>
      (\<exists>fl. get_property e ''isInvalidReturnError'' = Inr fl \<and>
            (\<not> truthy fl \<longrightarrow> h e = Handler_returns))"
    by (simp add: example_defs)
  have okb: "\<forall>e t0 h. runActions ?b True False
        (propNameValuesToObject example_utils (initProps ?b) [JS_number 7]) = (Rejected e, t0) \<and>
        onError (options ?b) = Some h \<longrightarrow>
      (\<exists>fl. get_property e ''isInvalidReturnError'' = Inr fl \<and>
            (\<not> truthy fl \<longrightarrow> h e = Handler_returns))"
    by (auto simp: example_defs runActions_eq callInitAction_def invoke_def)
  have okc: "\<forall>e t0 h. runActions ?c True False
        (propNameValuesToObject example_utils (initProps ?c) [JS_number 7]) = (Rejected e, t0) \<and>
        onError (options ?c) = Some h \<longrightarrow>
      (\<exists>fl. get_property e ''isInvalidReturnError'' = Inr fl \<and>
            (\<not> truthy fl \<longrightarrow> h e = Handler_returns))"
    by (simp add: example_defs)
  have sa: "fst (initComponent example_utils (Some ?a) [JS_number 7] ''Page[7]''
      (Some ''prepareComponent'') (example_state MODE_PREPARE nothing_prepared)) \<noteq> Returned Pending"
    by (simp add: model_defs example_defs)
  have sb: "fst (initComponent example_utils (Some ?b) [JS_number 7] ''Page[7]''
      (Some ''willReceiveProps'') (example_state MODE_INIT_SELF nothing_prepared)) \<noteq>
      Returned Pending"
    by (simp add: model_defs example_defs)
  have sc: "fst (initComponent example_utils (Some ?c) [JS_number 7] ''Page[7]''
      (Some ''willReceiveProps'') (example_state MODE_INIT_SELF nothing_prepared)) \<noteq>
      Returned Pending"
    by (simp add: model_defs example_defs)
  have va: "validation example_utils (Some ?a) [JS_number 7] ''Page[7]''
      (Some ''prepareComponent'') (example_state MODE_PREPARE nothing_prepared) =
      Inr (?a, True, False)"
    by (simp add: validation_def decision_def example_defs)
  have vb: "validation example_utils (Some ?b) [JS_number 7] ''Page[7]''
      (Some ''willReceiveProps'') (example_state MODE_INIT_SELF nothing_prepared) =
      Inr (?b, True, False)"
    by (simp add: validation_def decision_def example_defs)
  have vc: "validation example_utils (Some ?c) [JS_number 7] ''Page[7]''
      (Some ''willReceiveProps'') (example_state MODE_INIT_SELF nothing_prepared) =
      Inr (?c, True, False)"
    by (simp add: validation_def decision_def example_defs)
  show ?thesis
    using C2_end_notification_once [OF va _ oka] sa
      C2_end_notification_once [OF vb _ okb] sb
      C2_end_notification_once [OF vc _ okc] sc
    by auto
qed

text \<open>
  C2 as stated fails: with a handler that throws, the invocation below passes the
  validation, runs the primary action, and ends rejected without any end notification.
\<close>

theorem C2_counterexample:
  "validation example_utils
     (Some (example_config (Some handler_failing) (Some (rejects_with (JS_string ''boom''))) None
        False))
     [JS_number 7] ''Page[7]'' (Some ''willReceiveProps'')
     (example_state MODE_INIT_SELF nothing_prepared) =
     Inr (example_config (Some handler_failing) (Some (rejects_with (JS_string ''boom''))) None
            False, True, False) \<and>
   initComponent example_utils
     (Some (example_config (Some handler_failing) (Some (rejects_with (JS_string ''boom''))) None
        False))
     [JS_number 7] ''Page[7]'' (Some ''willReceiveProps'')
     (example_state MODE_INIT_SELF nothing_prepared) =
     (Returned (Rejected (JS_string ''handler failed'')),
      [Dispatch \<lparr>complete = False, isPrepare = False, prepareKey = ''Page[7]''\<rparr>,
       Call_initAction (JS_object [(''id'', JS_number 7)]),
       Call_onError (JS_string ''boom'')]) \<and>
   end_count ''Page[7]'' (Some ''willReceiveProps'')
     [Dispatch \<lparr>complete = False, isPrepare = False, prepareKey = ''Page[7]''\<rparr>,
      Call_initAction (JS_object [(''id'', JS_number 7)]),
      Call_onError (JS_string ''boom'')] = 0"
  by (simp add: model_defs example_defs end_count_def)

text \<open>
  C5, as amended. When the action steps fail (a scheduled action throws or its promise is
  rejected) with a failure that is not \<open>undefined\<close> or \<open>null\<close> and does not carry a truthy
  \<open>isInvalidReturnError\<close>, and a configured \<open>onError\<close> handler returns normally when called
  with it, then the handler is called exactly once, with that failure, the returned
  promise is fulfilled (with \<open>undefined\<close>), and the end notification is dispatched once.
\<close>

theorem C5_failure_handled:
  assumes v: "validation u C vs k caller st = Inr (cfg, sia, siac)"
    and fail: "runActions cfg sia siac (propNameValuesToObject u (initProps cfg) vs) =
                 (Rejected e, t0)"
    and h: "onError (options cfg) = Some h"
    and fl: "get_property e ''isInvalidReturnError'' = Inr fl" "\<not> truthy fl"
    and ok: "h e = Handler_returns"
  shows "\<exists>t. initComponent u C vs k caller st = (Returned (Fulfilled JS_undefined), t) \<and>
             handler_calls t = [e] \<and> end_count k caller t = 1"
proof -
  let ?t = "Dispatch (start_notification k caller) # t0 @ [Call_onError e] @
              [Dispatch (end_notification k caller)]"
  have sched: "sia \<or> siac" using fail by (rule runActions_rejected_scheduled)
  have "initComponent u C vs k caller st = (Returned (Fulfilled JS_undefined), ?t)"
    by (simp add: initComponent_valid [OF v] execution_rejected [OF sched fail]
        handleError_handled [OF h fl ok])
  moreover have "handler_calls ?t = [e]"
    using runActions_no_handler_calls [OF fail]
    by (simp add: handler_calls_def)
  moreover have "end_count k caller ?t = 1"
    using runActions_no_dispatch [OF fail] by (rule end_count_handled)
  ultimately show ?thesis by blast
qed

theorem C5_failure_handled_witness:
  "initComponent example_utils
     (Some (example_config (Some handler_ok) (Some (rejects_with (JS_string ''boom''))) None
        False))
     [JS_number 7] ''Page[7]'' (Some ''willReceiveProps'')
     (example_state MODE_INIT_SELF nothing_prepared) =
     (Returned (Fulfilled JS_undefined),
      [Dispatch \<lparr>complete = False, isPrepare = False, prepareKey = ''Page[7]''\<rparr>,
       Call_initAction (JS_object [(''id'', JS_number 7)]),
       Call_onError (JS_string ''boom''),
       Dispatch \<lparr>complete = True, isPrepare = False, prepareKey = ''Page[7]''\<rparr>]) \<and>
   handler_calls (snd (initComponent example_utils
     (Some (example_config (Some handler_ok) (Some (rejects_with (JS_string ''boom''))) None
        False))
     [JS_number 7] ''Page[7]'' (Some ''willReceiveProps'')
     (example_state MODE_INIT_SELF nothing_prepared))) = [JS_string ''boom''] \<and>
   end_count ''Page[7]'' (Some ''willReceiveProps'') (snd (initComponent example_utils
     (Some (example_config (Some handler_ok) (Some (rejects_with (JS_string ''boom''))) None
        False))
     [JS_number 7] ''Page[7]'' (Some ''willReceiveProps'')
     (example_state MODE_INIT_SELF nothing_prepared))) = 1"
proof -
  let ?b = "example_config (Some handler_ok) (Some (rejects_with (JS_string ''boom''))) None False"
  have v: "validation example_utils (Some ?b) [JS_number 7] ''Page[7]''
      (Some ''willReceiveProps'') (example_state MODE_INIT_SELF nothing_prepared) =
      Inr (?b, True, False)"
    by (simp add: validation_def decision_def example_defs)
  have fail: "runActions ?b True False
      (propNameValuesToObject example_utils (initProps ?b) [JS_number 7]) =
      (Rejected (JS_string ''boom''), [Call_initAction (JS_object [(''id'', JS_number 7)])])"
    by (simp add: runActions_eq callInitAction_def invoke_def example_defs)
  have h: "onError (options ?b) = Some handler_ok" by (simp add: example_defs)
  have fl: "get_property (JS_string ''boom'') ''isInvalidReturnError'' = Inr JS_undefined"
    "\<not> truthy JS_undefined" by simp_all
  have ok: "handler_ok (JS_string ''boom'') = Handler_returns" by (simp add: handler_ok_def)
  have whole: "initComponent example_utils (Some ?b) [JS_number 7] ''Page[7]''
      (Some ''willReceiveProps'') (example_state MODE_INIT_SELF nothing_prepared) =
     (Returned (Fulfilled JS_undefined),
      [Dispatch \<lparr>complete = False, isPrepare = False, prepareKey = ''Page[7]''\<rparr>,
       Call_initAction (JS_object [(''id'', JS_number 7)]),
       Call_onError (JS_string ''boom''),
       Dispatch \<lparr>complete = True, isPrepare = False, prepareKey = ''Page[7]''\<rparr>])"
    by (simp add: model_defs example_defs)
  show ?thesis
    using C5_failure_handled [OF v fail h fl ok] whole by auto
qed

text \<open>
  C5 as stated fails: below the restricted action throws an ordinary error object and a
  handler is configured, yet the returned promise is rejected, because the handler
  throws.
\<close>

theorem C5_counterexample:
  "validation example_utils
     (Some (example_config (Some handler_failing) (Some (resolves_with (JS_string ''P'')))
        (Some (throws_value (JS_object [(''message'', JS_string ''offline'')]))) True))
     [JS_number 7] ''Page[7]'' (Some ''didMount'')
     (example_state MODE_INIT_SELF nothing_prepared) =
     Inr (example_config (Some handler_failing) (Some (resolves_with (JS_string ''P'')))
            (Some (throws_value (JS_object [(''message'', JS_string ''offline'')]))) True,
          True, True) \<and>
   get_property (JS_object [(''message'', JS_string ''offline'')]) ''isInvalidReturnError'' =
     Inr JS_undefined \<and>
   initComponent example_utils
     (Some (example_config (Some handler_failing) (Some (resolves_with (JS_string ''P'')))
        (Some (throws_value (JS_object [(''message'', JS_string ''offline'')]))) True))
     [JS_number 7] ''Page[7]'' (Some ''didMount'')
     (example_state MODE_INIT_SELF nothing_prepared) =
     (Returned (Rejected (JS_string ''handler failed'')),
      [Dispatch \<lparr>complete = False, isPrepare = False, prepareKey = ''Page[7]''\<rparr>,
       Call_initAction (JS_object [(''id'', JS_number 7)]),
       Call_initActionClient (JS_object [(''id'', JS_number 7)]),
       Call_onError (JS_object [(''message'', JS_string ''offline'')])])"
  by (simp add: model_defs example_defs)

text \<open>
  C10. When the action steps fail, an \<open>onError\<close> handler is configured and is called
  with the failure, and the handler throws, the returned promise is rejected with what
  the handler threw and the end notification is not dispatched.
\<close>

theorem C10_handler_throws:
  assumes v: "validation u C vs k caller st = Inr (cfg, sia, siac)"
    and fail: "runActions cfg sia siac (propNameValuesToObject u (initProps cfg) vs) =
                 (Rejected e, t0)"
    and h: "onError (options cfg) = Some h"
    and fl: "get_property e ''isInvalidReturnError'' = Inr fl" "\<not> truthy fl"
    and bad: "h e = Handler_throws e'"
  shows "\<exists>t. initComponent u C vs k caller st = (Returned (Rejected e'), t) \<and>
             handler_calls t = [e] \<and> end_count k caller t = 0"
proof -
  let ?t = "Dispatch (start_notification k caller) # t0 @ [Call_onError e]"
  have sched: "sia \<or> siac" using fail by (rule runActions_rejected_scheduled)
  have "initComponent u C vs k caller st = (Returned (Rejected e'), ?t)"
    by (simp add: initComponent_valid [OF v] execution_rejected [OF sched fail]
        handleError_handler_throws [OF h fl bad])
  moreover have "handler_calls ?t = [e]"
    using runActions_no_handler_calls [OF fail]
    by (simp add: handler_calls_def)
  moreover have "end_count k caller ?t = 0"
    using runActions_no_dispatch [OF fail] by (rule end_count_handler_threw)
  ultimately show ?thesis by blast
qed

theorem C10_handler_throws_witness:
  "initComponent example_utils
     (Some (example_config (Some handler_failing) (Some (throws_value (JS_number 503))) None
        False))
     [JS_number 7] ''Page[7]'' (Some ''prepareComponent'')
     (example_state MODE_PREPARE nothing_prepared) =
     (Returned (Rejected (JS_string ''handler failed'')),
      [Dispatch \<lparr>complete = False, isPrepare = True, prepareKey = ''Page[7]''\<rparr>,
       Call_initAction (JS_object [(''id'', JS_number 7)]),
       Call_onError (JS_number 503)]) \<and>
   end_count ''Page[7]'' (Some ''prepareComponent'') (snd (initComponent example_utils
     (Some (example_config (Some handler_failing) (Some (throws_value (JS_number 503))) None
        False))
     [JS_number 7] ''Page[7]'' (Some ''prepareComponent'')
     (example_state MODE_PREPARE nothing_prepared))) = 0"
proof -
  let ?b = "example_config (Some handler_failing) (Some (throws_value (JS_number 503))) None False"
  have v: "validation example_utils (Some ?b) [JS_number 7] ''Page[7]''
      (Some ''prepareComponent'') (example_state MODE_PREPARE nothing_prepared) =
      Inr (?b, True, False)"
    by (simp add: validation_def decision_def example_defs)
  have fail: "runActions ?b True False
      (propNameValuesToObject example_utils (initProps ?b) [JS_number 7]) =
      (Rejected (JS_number 503), [Call_initAction (JS_object [(''id'', JS_number 7)])])"
    by (simp add: runActions_eq callInitAction_def invoke_def example_defs)
  have h: "onError (options ?b) = Some handler_failing" by (simp add: example_defs)
  have fl: "get_property (JS_number 503) ''isInvalidReturnError'' = Inr JS_undefined"
    "\<not> truthy JS_undefined" by simp_all
  have bad: "handler_failing (JS_number 503) = Handler_throws (JS_string ''handler failed'')"
    by (simp add: handler_failing_def)
  have whole: "initComponent example_utils (Some ?b) [JS_number 7] ''Page[7]''
      (Some ''prepareComponent'') (example_state MODE_PREPARE nothing_prepared) =
     (Returned (Rejected (JS_string ''handler failed'')),
      [Dispatch \<lparr>complete = False, isPrepare = True, prepareKey = ''Page[7]''\<rparr>,
       Call_initAction (JS_object [(''id'', JS_number 7)]),
       Call_onError (JS_number 503)])"
    by (simp add: model_defs example_defs)
  show ?thesis
    using C10_handler_throws [OF v fail h fl bad] whole by auto
qed

section \<open>Actions that do not return a promise\<close>

text \<open>
  A returned value that is neither a promise nor \<open>undefined\<close> nor \<open>null\<close> makes the
  returned promise reject with the flagged error, which names the action, the \<open>typeof\<close>
  of the value and the component id; the handler is not called, whether configured or
  not.
\<close>

lemma primary_value_rejected:
  assumes v: "validation u C vs k caller st = Inr (cfg, True, siac)"
    and f: "initAction cfg = Some f"
    and r: "f (propNameValuesToObject u (initProps cfg) vs) = Returns x"
    and x: "x \<noteq> JS_undefined" "x \<noteq> JS_null"
  shows "initComponent u C vs k caller st =
           (Returned (Rejected (JS_error (InvalidActionReturn
              (if initActionObjectParam cfg then ''initAction.server'' else ''initAction'')
              (typeof x) (componentId cfg)))),
            [Dispatch (start_notification k caller),
             Call_initAction (propNameValuesToObject u (initProps cfg) vs),
             Dispatch (end_notification k caller)])"
proof -
  let ?obj = "propNameValuesToObject u (initProps cfg) vs"
  obtain y where y: "get_property x ''then'' = Inr y"
    using get_property_defined [OF x] by blast
  have "callInitAction cfg True ?obj =
      (Rejected (JS_error (InvalidActionReturn
         (if initActionObjectParam cfg then ''initAction.server'' else ''initAction'')
         (typeof x) (componentId cfg))), [Call_initAction ?obj])"
    using f r y by (simp add: callInitAction_def invoke_def)
  then have run: "runActions cfg True siac ?obj =
      (Rejected (JS_error (InvalidActionReturn
         (if initActionObjectParam cfg then ''initAction.server'' else ''initAction'')
         (typeof x) (componentId cfg))), [Call_initAction ?obj])"
    by (simp add: runActions_eq)
  have sched: "True \<or> siac" by simp
  show ?thesis
    by (simp add: initComponent_valid [OF v] execution_rejected [OF sched run]
        handleError_invalid_return)
qed

lemma restricted_value_rejected:
  assumes v: "validation u C vs k caller st = Inr (cfg, False, True)"
    and g: "initActionClient cfg = Some g"
    and r: "g (propNameValuesToObject u (initProps cfg) vs) = Returns x"
    and x: "x \<noteq> JS_undefined" "x \<noteq> JS_null"
  shows "initComponent u C vs k caller st =
           (Returned (Rejected (JS_error (InvalidActionReturn ''initAction.client''
              (typeof x) (componentId cfg)))),
            [Dispatch (start_notification k caller),
             Call_initActionClient (propNameValuesToObject u (initProps cfg) vs),
             Dispatch (end_notification k caller)])"
proof -
  let ?obj = "propNameValuesToObject u (initProps cfg) vs"
  obtain y where y: "get_property x ''then'' = Inr y"
    using get_property_defined [OF x] by blast
  have "callInitActionClient cfg False True ?obj JS_undefined =
      (Rejected (JS_error (InvalidActionReturn ''initAction.client''
         (typeof x) (componentId cfg))), [Call_initActionClient ?obj])"
    using g r y by (simp add: callInitActionClient_def invoke_def)
  then have run: "runActions cfg False True ?obj =
      (Rejected (JS_error (InvalidActionReturn ''initAction.client''
         (typeof x) (componentId cfg))), [Call_initActionClient ?obj])"
    by (simp add: runActions_eq callInitAction_skipped)
  have sched: "False \<or> True" by simp
  show ?thesis
    by (simp add: initComponent_valid [OF v] execution_rejected [OF sched run]
        handleError_invalid_return)
qed

text \<open>
  C3. A primary action that returns \<open>undefined\<close> (a function without a \<open>return\<close>) does
  not give the flagged error: reading \<open>then\<close> of \<open>undefined\<close> raises a TypeError, which
  carries no flag, so a configured handler receives it and the returned promise is
  fulfilled.
\<close>

theorem C3_undefined_return_reaches_onError:
  "validation example_utils
     (Some (example_config (Some handler_ok) (Some (returns_value JS_undefined)) None False))
     [JS_number 7] ''Page[7]'' (Some ''willReceiveProps'')
     (example_state MODE_INIT_SELF nothing_prepared) =
     Inr (example_config (Some handler_ok) (Some (returns_value JS_undefined)) None False,
          True, False) \<and>
   initComponent example_utils
     (Some (example_config (Some handler_ok) (Some (returns_value JS_undefined)) None False))
     [JS_number 7] ''Page[7]'' (Some ''willReceiveProps'')
     (example_state MODE_INIT_SELF nothing_prepared) =
     (Returned (Fulfilled JS_undefined),
      [Dispatch \<lparr>complete = False, isPrepare = False, prepareKey = ''Page[7]''\<rparr>,
       Call_initAction (JS_object [(''id'', JS_number 7)]),
       Call_onError (JS_error (TypeError ''then'')),
       Dispatch \<lparr>complete = True, isPrepare = False, prepareKey = ''Page[7]''\<rparr>])"
  by (simp add: model_defs example_defs)

end
